theory Spec2Isabelle
  imports Complex_Main
begin

section \<open>Data model\<close>

text \<open>
  The snapping utility works on JavaScript numbers. In the functions of this and the next
  three sections they are real numbers with exact arithmetic: \<open>Math.round\<close> is \<open>round\<close>
  (half-way cases go up, as in JavaScript), \<open>Math.sqrt\<close> is \<open>sqrt\<close>, \<open>Math.pow(a, 2)\<close> is
  \<open>a\<^sup>2\<close>. That is what the program computes wherever its operands and results are doubles
  (the scenarios), and it decides every claim that compares one expression with itself or
  that does not depend on arithmetic. Two claims turn on the rounding of doubles, the
  threshold of the search and the idempotence of the grid snap; for them the section on
  binary64 gives the rounding and the two computations with every operation rounded. NaN
  and the infinities are outside the model; the one infinity the code uses, the initial
  \<open>closestDistance\<close>, is the value \<open>None\<close> of an option.

  TypeScript's types are erased when the program runs: a block read back from a saved
  project carries whatever string and numbers the file holds. So \<open>block.type\<close> is a
  string, \<open>coreThickness\<close> and \<open>rotation\<close> are numbers, and the catalog is a dictionary
  from strings to specifications, as in the source.
\<close>

record Vector3 =
  vec_x :: real
  vec_y :: real
  vec_z :: real

text \<open>\<open>ICFBlock\<close> of \<open>types/project.ts\<close>; the optional \<open>areaId\<close> and \<open>color\<close>, which the
  geometry never reads, are left out.\<close>

record ICFBlock =
  block_id :: string
  block_type :: string
  coreThickness :: real
  position :: Vector3
  rotation :: real

text \<open>\<open>ICFBlockSpec\<close> of the catalog; name, price and description are left out.\<close>

record ICFBlockSpec =
  spec_type :: string
  spec_height :: real
  spec_length :: real
  longLeg :: "real option"
  shortLeg :: "real option"
  getWidth :: "real \<Rightarrow> real"

record BlockBounds =
  minX :: real
  maxX :: real
  minZ :: real
  maxZ :: real
  bounds_rotation :: real

datatype Orientation = OMinX | OMaxX | OMinZ | OMaxZ

datatype SnapEdge = EdgeLeft | EdgeRight | EdgeFront | EdgeBack

text \<open>\<open>BlockFace\<close>; its optional \<open>width\<close> is never written nor read.\<close>

record BlockFace =
  centerX :: real
  centerZ :: real
  plane :: real
  orientation :: Orientation

record FaceOffset =
  offsetX :: real
  offsetZ :: real
  planeOffset :: real
  off_orientation :: Orientation

record SnapResult =
  snap_position :: Vector3
  snappedToBlock :: bool
  snappedBlockId :: "string option"
  snapEdge :: "SnapEdge option"

text \<open>Reading a property of \<open>undefined\<close> raises a \<open>TypeError\<close>.\<close>

datatype js_error = TypeError

section \<open>The block catalog\<close>

definition getStandardWidth :: "real \<Rightarrow> real" where
  "getStandardWidth core = 5.5 + core"

definition ICF_BLOCK_CATALOG :: "string \<rightharpoonup> ICFBlockSpec" where
  "ICF_BLOCK_CATALOG =
     [''standard'' \<mapsto>
        \<lparr>spec_type = ''standard'', spec_height = 16, spec_length = 48,
         longLeg = None, shortLeg = None, getWidth = getStandardWidth\<rparr>,
      ''corner90'' \<mapsto>
        \<lparr>spec_type = ''corner90'', spec_height = 16, spec_length = 38.5,
         longLeg = Some 38.5, shortLeg = Some 22.5, getWidth = getStandardWidth\<rparr>,
      ''corner45'' \<mapsto>
        \<lparr>spec_type = ''corner45'', spec_height = 16, spec_length = 32,
         longLeg = Some 32, shortLeg = Some 32, getWidth = getStandardWidth\<rparr>,
      ''taperTop'' \<mapsto>
        \<lparr>spec_type = ''taperTop'', spec_height = 16, spec_length = 48,
         longLeg = None, shortLeg = None, getWidth = (\<lambda>core. getStandardWidth core + 4)\<rparr>,
      ''brickLedge'' \<mapsto>
        \<lparr>spec_type = ''brickLedge'', spec_height = 16, spec_length = 48,
         longLeg = None, shortLeg = None, getWidth = (\<lambda>core. 17.375)\<rparr>,
      ''heightAdjuster'' \<mapsto>
        \<lparr>spec_type = ''heightAdjuster'', spec_height = 4, spec_length = 48,
         longLeg = None, shortLeg = None, getWidth = getStandardWidth\<rparr>]"

text \<open>\<open>v || d\<close> on an optional number: \<open>undefined\<close> and \<open>0\<close> are falsy.\<close>

definition js_or :: "real option \<Rightarrow> real \<Rightarrow> real" where
  "js_or v d = (case v of None \<Rightarrow> d | Some n \<Rightarrow> if n = 0 then d else n)"

definition isRectangular :: "string \<Rightarrow> bool" where
  "isRectangular t \<longleftrightarrow>
     t = ''standard'' \<or> t = ''taperTop'' \<or> t = ''brickLedge'' \<or> t = ''heightAdjuster''"

section \<open>Footprint geometry\<close>

definition getBlockBounds :: "ICFBlock \<Rightarrow> js_error + BlockBounds" where
  "getBlockBounds block =
     (case ICF_BLOCK_CATALOG (block_type block) of
        None \<Rightarrow> Inl TypeError
      | Some spec \<Rightarrow>
          let width = getWidth spec (coreThickness block);
              pos = position block;
              rot = rotation block
          in
          if isRectangular (block_type block) then
            let halfLength = spec_length spec / 2;
                halfWidth = width / 2
            in
            if rot = 0 \<or> rot = 180 then
              Inr \<lparr>minX = vec_x pos - halfLength, maxX = vec_x pos + halfLength,
                   minZ = vec_z pos - halfWidth, maxZ = vec_z pos + halfWidth,
                   bounds_rotation = rot\<rparr>
            else
              Inr \<lparr>minX = vec_x pos - halfWidth, maxX = vec_x pos + halfWidth,
                   minZ = vec_z pos - halfLength, maxZ = vec_z pos + halfLength,
                   bounds_rotation = rot\<rparr>
          else if block_type block = ''corner90'' then
            let longLeg = js_or (longLeg spec) 38.5;
                shortLeg = js_or (shortLeg spec) 22.5;
                halfWidth = width / 2
            in
            if rot = 0 then
              Inr \<lparr>minX = vec_x pos - halfWidth, maxX = vec_x pos + shortLeg - halfWidth,
                   minZ = vec_z pos - longLeg / 2, maxZ = vec_z pos + longLeg / 2,
                   bounds_rotation = rot\<rparr>
            else if rot = 90 then
              Inr \<lparr>minX = vec_x pos - longLeg / 2, maxX = vec_x pos + longLeg / 2,
                   minZ = vec_z pos - shortLeg + halfWidth, maxZ = vec_z pos + halfWidth,
                   bounds_rotation = rot\<rparr>
            else if rot = 180 then
              Inr \<lparr>minX = vec_x pos - shortLeg + halfWidth, maxX = vec_x pos + halfWidth,
                   minZ = vec_z pos - longLeg / 2, maxZ = vec_z pos + longLeg / 2,
                   bounds_rotation = rot\<rparr>
            else if rot = 270 then
              Inr \<lparr>minX = vec_x pos - longLeg / 2, maxX = vec_x pos + longLeg / 2,
                   minZ = vec_z pos - halfWidth, maxZ = vec_z pos + shortLeg - halfWidth,
                   bounds_rotation = rot\<rparr>
            else
              Inr \<lparr>minX = vec_x pos - halfWidth, maxX = vec_x pos + shortLeg - halfWidth,
                   minZ = vec_z pos - longLeg / 2, maxZ = vec_z pos + longLeg / 2,
                   bounds_rotation = rot\<rparr>
          else if block_type block = ''corner45'' then
            let legLength = js_or (longLeg spec) 32
            in
            if rot = 0 then
              Inr \<lparr>minX = vec_x pos, maxX = vec_x pos + legLength,
                   minZ = vec_z pos, maxZ = vec_z pos + legLength,
                   bounds_rotation = rot\<rparr>
            else if rot = 90 then
              Inr \<lparr>minX = vec_x pos, maxX = vec_x pos + legLength,
                   minZ = vec_z pos - legLength, maxZ = vec_z pos,
                   bounds_rotation = rot\<rparr>
            else if rot = 180 then
              Inr \<lparr>minX = vec_x pos - legLength, maxX = vec_x pos,
                   minZ = vec_z pos - legLength, maxZ = vec_z pos,
                   bounds_rotation = rot\<rparr>
            else if rot = 270 then
              Inr \<lparr>minX = vec_x pos - legLength, maxX = vec_x pos,
                   minZ = vec_z pos, maxZ = vec_z pos + legLength,
                   bounds_rotation = rot\<rparr>
            else
              Inr \<lparr>minX = vec_x pos, maxX = vec_x pos + legLength,
                   minZ = vec_z pos, maxZ = vec_z pos + legLength,
                   bounds_rotation = rot\<rparr>
          else
            Inr \<lparr>minX = vec_x pos - 24, maxX = vec_x pos + 24,
                 minZ = vec_z pos - 7, maxZ = vec_z pos + 7,
                 bounds_rotation = rot\<rparr>)"

definition getBlockFaces :: "ICFBlock \<Rightarrow> js_error + BlockFace list" where
  "getBlockFaces block =
     (case ICF_BLOCK_CATALOG (block_type block) of
        None \<Rightarrow> Inl TypeError
      | Some spec \<Rightarrow>
          let width = getWidth spec (coreThickness block);
              halfWidth = width / 2;
              pos = position block
          in
          if isRectangular (block_type block) then
            let len = spec_length spec;
                halfLength = len / 2
            in
            if rotation block = 0 \<or> rotation block = 180 then
              Inr [\<lparr>centerX = vec_x pos - halfLength, centerZ = vec_z pos,
                    plane = vec_x pos - halfLength, orientation = OMinX\<rparr>,
                   \<lparr>centerX = vec_x pos + halfLength, centerZ = vec_z pos,
                    plane = vec_x pos + halfLength, orientation = OMaxX\<rparr>,
                   \<lparr>centerX = vec_x pos, centerZ = vec_z pos - halfWidth,
                    plane = vec_z pos - halfWidth, orientation = OMinZ\<rparr>,
                   \<lparr>centerX = vec_x pos, centerZ = vec_z pos + halfWidth,
                    plane = vec_z pos + halfWidth, orientation = OMaxZ\<rparr>]
            else
              Inr [\<lparr>centerX = vec_x pos - halfWidth, centerZ = vec_z pos,
                    plane = vec_x pos - halfWidth, orientation = OMinX\<rparr>,
                   \<lparr>centerX = vec_x pos + halfWidth, centerZ = vec_z pos,
                    plane = vec_x pos + halfWidth, orientation = OMaxX\<rparr>,
                   \<lparr>centerX = vec_x pos, centerZ = vec_z pos - halfLength,
                    plane = vec_z pos - halfLength, orientation = OMinZ\<rparr>,
                   \<lparr>centerX = vec_x pos, centerZ = vec_z pos + halfLength,
                    plane = vec_z pos + halfLength, orientation = OMaxZ\<rparr>]
          else if block_type block = ''corner90'' then
            let longLeg = js_or (longLeg spec) 38.5;
                shortLeg = js_or (shortLeg spec) 22.5;
                halfLongLeg = longLeg / 2
            in
            if rotation block = 0 then
              Inr [\<lparr>centerX = vec_x pos - halfWidth, centerZ = vec_z pos,
                    plane = vec_x pos - halfWidth, orientation = OMinX\<rparr>,
                   \<lparr>centerX = vec_x pos + shortLeg - halfWidth,
                    centerZ = vec_z pos - halfLongLeg + halfWidth,
                    plane = vec_x pos + shortLeg - halfWidth, orientation = OMaxX\<rparr>,
                   \<lparr>centerX = vec_x pos - halfWidth + shortLeg / 2,
                    centerZ = vec_z pos - halfLongLeg,
                    plane = vec_z pos - halfLongLeg, orientation = OMinZ\<rparr>,
                   \<lparr>centerX = vec_x pos, centerZ = vec_z pos + halfLongLeg,
                    plane = vec_z pos + halfLongLeg, orientation = OMaxZ\<rparr>]
            else if rotation block = 90 then
              Inr [\<lparr>centerX = vec_x pos - halfLongLeg,
                    centerZ = vec_z pos + halfWidth - shortLeg / 2,
                    plane = vec_x pos - halfLongLeg, orientation = OMinX\<rparr>,
                   \<lparr>centerX = vec_x pos + halfLongLeg, centerZ = vec_z pos,
                    plane = vec_x pos + halfLongLeg, orientation = OMaxX\<rparr>,
                   \<lparr>centerX = vec_x pos - halfLongLeg + halfWidth,
                    centerZ = vec_z pos - shortLeg + halfWidth,
                    plane = vec_z pos - shortLeg + halfWidth, orientation = OMinZ\<rparr>,
                   \<lparr>centerX = vec_x pos, centerZ = vec_z pos + halfWidth,
                    plane = vec_z pos + halfWidth, orientation = OMaxZ\<rparr>]
            else if rotation block = 180 then
              Inr [\<lparr>centerX = vec_x pos - shortLeg + halfWidth,
                    centerZ = vec_z pos + halfLongLeg - halfWidth,
                    plane = vec_x pos - shortLeg + halfWidth, orientation = OMinX\<rparr>,
                   \<lparr>centerX = vec_x pos + halfWidth, centerZ = vec_z pos,
                    plane = vec_x pos + halfWidth, orientation = OMaxX\<rparr>,
                   \<lparr>centerX = vec_x pos, centerZ = vec_z pos - halfLongLeg,
                    plane = vec_z pos - halfLongLeg, orientation = OMinZ\<rparr>,
                   \<lparr>centerX = vec_x pos + halfWidth - shortLeg / 2,
                    centerZ = vec_z pos + halfLongLeg,
                    plane = vec_z pos + halfLongLeg, orientation = OMaxZ\<rparr>]
            else if rotation block = 270 then
              Inr [\<lparr>centerX = vec_x pos - halfLongLeg, centerZ = vec_z pos,
                    plane = vec_x pos - halfLongLeg, orientation = OMinX\<rparr>,
                   \<lparr>centerX = vec_x pos + halfLongLeg,
                    centerZ = vec_z pos - halfWidth + shortLeg / 2,
                    plane = vec_x pos + halfLongLeg, orientation = OMaxX\<rparr>,
                   \<lparr>centerX = vec_x pos, centerZ = vec_z pos - halfWidth,
                    plane = vec_z pos - halfWidth, orientation = OMinZ\<rparr>,
                   \<lparr>centerX = vec_x pos + halfLongLeg - halfWidth,
                    centerZ = vec_z pos + shortLeg - halfWidth,
                    plane = vec_z pos + shortLeg - halfWidth, orientation = OMaxZ\<rparr>]
            else Inr []
          else
            (case getBlockBounds block of
               Inl e \<Rightarrow> Inl e
             | Inr bounds \<Rightarrow>
                 Inr [\<lparr>centerX = minX bounds, centerZ = (minZ bounds + maxZ bounds) / 2,
                       plane = minX bounds, orientation = OMinX\<rparr>,
                      \<lparr>centerX = maxX bounds, centerZ = (minZ bounds + maxZ bounds) / 2,
                       plane = maxX bounds, orientation = OMaxX\<rparr>,
                      \<lparr>centerX = (minX bounds + maxX bounds) / 2, centerZ = minZ bounds,
                       plane = minZ bounds, orientation = OMinZ\<rparr>,
                      \<lparr>centerX = (minX bounds + maxX bounds) / 2, centerZ = maxZ bounds,
                       plane = maxZ bounds, orientation = OMaxZ\<rparr>]))"

definition getBlockFaceOffsets :: "string \<Rightarrow> real \<Rightarrow> real \<Rightarrow> js_error + FaceOffset list" where
  "getBlockFaceOffsets type core rot =
     (case ICF_BLOCK_CATALOG type of
        None \<Rightarrow> Inl TypeError
      | Some spec \<Rightarrow>
          let width = getWidth spec core;
              halfWidth = width / 2
          in
          if isRectangular type then
            let halfLength = spec_length spec / 2
            in
            if rot = 0 \<or> rot = 180 then
              Inr [\<lparr>offsetX = - halfLength, offsetZ = 0,
                    planeOffset = - halfLength, off_orientation = OMinX\<rparr>,
                   \<lparr>offsetX = halfLength, offsetZ = 0,
                    planeOffset = halfLength, off_orientation = OMaxX\<rparr>,
                   \<lparr>offsetX = 0, offsetZ = - halfWidth,
                    planeOffset = - halfWidth, off_orientation = OMinZ\<rparr>,
                   \<lparr>offsetX = 0, offsetZ = halfWidth,
                    planeOffset = halfWidth, off_orientation = OMaxZ\<rparr>]
            else
              Inr [\<lparr>offsetX = - halfWidth, offsetZ = 0,
                    planeOffset = - halfWidth, off_orientation = OMinX\<rparr>,
                   \<lparr>offsetX = halfWidth, offsetZ = 0,
                    planeOffset = halfWidth, off_orientation = OMaxX\<rparr>,
                   \<lparr>offsetX = 0, offsetZ = - halfLength,
                    planeOffset = - halfLength, off_orientation = OMinZ\<rparr>,
                   \<lparr>offsetX = 0, offsetZ = halfLength,
                    planeOffset = halfLength, off_orientation = OMaxZ\<rparr>]
          else if type = ''corner90'' then
            let longLeg = js_or (longLeg spec) 38.5;
                shortLeg = js_or (shortLeg spec) 22.5;
                halfLongLeg = longLeg / 2
            in
            if rot = 0 then
              Inr [\<lparr>offsetX = - halfWidth, offsetZ = 0,
                    planeOffset = - halfWidth, off_orientation = OMinX\<rparr>,
                   \<lparr>offsetX = shortLeg - halfWidth, offsetZ = - halfLongLeg + halfWidth,
                    planeOffset = shortLeg - halfWidth, off_orientation = OMaxX\<rparr>,
                   \<lparr>offsetX = - halfWidth + shortLeg / 2, offsetZ = - halfLongLeg,
                    planeOffset = - halfLongLeg, off_orientation = OMinZ\<rparr>,
                   \<lparr>offsetX = 0, offsetZ = halfLongLeg,
                    planeOffset = halfLongLeg, off_orientation = OMaxZ\<rparr>]
            else if rot = 90 then
              Inr [\<lparr>offsetX = - halfLongLeg, offsetZ = halfWidth - shortLeg / 2,
                    planeOffset = - halfLongLeg, off_orientation = OMinX\<rparr>,
                   \<lparr>offsetX = halfLongLeg, offsetZ = 0,
                    planeOffset = halfLongLeg, off_orientation = OMaxX\<rparr>,
                   \<lparr>offsetX = - halfLongLeg + halfWidth, offsetZ = - shortLeg + halfWidth,
                    planeOffset = - shortLeg + halfWidth, off_orientation = OMinZ\<rparr>,
                   \<lparr>offsetX = 0, offsetZ = halfWidth,
                    planeOffset = halfWidth, off_orientation = OMaxZ\<rparr>]
            else if rot = 180 then
              Inr [\<lparr>offsetX = - shortLeg + halfWidth, offsetZ = halfLongLeg - halfWidth,
                    planeOffset = - shortLeg + halfWidth, off_orientation = OMinX\<rparr>,
                   \<lparr>offsetX = halfWidth, offsetZ = 0,
                    planeOffset = halfWidth, off_orientation = OMaxX\<rparr>,
                   \<lparr>offsetX = 0, offsetZ = - halfLongLeg,
                    planeOffset = - halfLongLeg, off_orientation = OMinZ\<rparr>,
                   \<lparr>offsetX = halfWidth - shortLeg / 2, offsetZ = halfLongLeg,
                    planeOffset = halfLongLeg, off_orientation = OMaxZ\<rparr>]
            else if rot = 270 then
              Inr [\<lparr>offsetX = - halfLongLeg, offsetZ = 0,
                    planeOffset = - halfLongLeg, off_orientation = OMinX\<rparr>,
                   \<lparr>offsetX = halfLongLeg, offsetZ = - halfWidth + shortLeg / 2,
                    planeOffset = halfLongLeg, off_orientation = OMaxX\<rparr>,
                   \<lparr>offsetX = 0, offsetZ = - halfWidth,
                    planeOffset = - halfWidth, off_orientation = OMinZ\<rparr>,
                   \<lparr>offsetX = halfLongLeg - halfWidth, offsetZ = shortLeg - halfWidth,
                    planeOffset = shortLeg - halfWidth, off_orientation = OMaxZ\<rparr>]
            else Inr []
          else
            Inr [\<lparr>offsetX = - 24, offsetZ = 0, planeOffset = - 24, off_orientation = OMinX\<rparr>,
                 \<lparr>offsetX = 24, offsetZ = 0, planeOffset = 24, off_orientation = OMaxX\<rparr>,
                 \<lparr>offsetX = 0, offsetZ = - 7, planeOffset = - 7, off_orientation = OMinZ\<rparr>,
                 \<lparr>offsetX = 0, offsetZ = 7, planeOffset = 7, off_orientation = OMaxZ\<rparr>])"

section \<open>Placement snapping\<close>

definition SNAP_THRESHOLD :: real where
  "SNAP_THRESHOLD = 150"

text \<open>The variables of \<open>snapBlockPosition\<close> that the search updates. \<open>closestDistance\<close>
  starts as \<open>Infinity\<close>, here \<open>None\<close>.\<close>

record SnapState =
  bestSnapPosition :: Vector3
  closestDistance :: "real option"
  st_snappedToBlock :: bool
  st_snappedBlockId :: "string option"
  st_snapEdge :: "SnapEdge option"

definition validPair :: "Orientation \<Rightarrow> Orientation \<Rightarrow> bool" where
  "validPair ex new \<longleftrightarrow>
     (ex = OMaxX \<and> new = OMinX) \<or> (ex = OMinX \<and> new = OMaxX) \<or>
     (ex = OMaxZ \<and> new = OMinZ) \<or> (ex = OMinZ \<and> new = OMaxZ)"

text \<open>Where the centre of the new block would be if the two faces touched: the pair
  \<open>(snapX, snapZ)\<close>.\<close>

definition snapSolve :: "BlockFace \<Rightarrow> FaceOffset \<Rightarrow> real \<times> real" where
  "snapSolve exFace newFace =
     (if orientation exFace = OMinX \<or> orientation exFace = OMaxX
      then (plane exFace - planeOffset newFace, centerZ exFace - offsetZ newFace)
      else (centerX exFace - offsetX newFace, plane exFace - planeOffset newFace))"

definition snapDist :: "Vector3 \<Rightarrow> real \<times> real \<Rightarrow> real" where
  "snapDist rawPosition s =
     sqrt ((vec_x rawPosition - fst s)\<^sup>2 + (vec_z rawPosition - snd s)\<^sup>2)"

definition ltClosest :: "real \<Rightarrow> real option \<Rightarrow> bool" where
  "ltClosest d closest = (case closest of None \<Rightarrow> True | Some c \<Rightarrow> d < c)"

definition edgeName :: "Orientation \<Rightarrow> SnapEdge" where
  "edgeName ori =
     (case ori of OMinX \<Rightarrow> EdgeLeft | OMaxX \<Rightarrow> EdgeRight
                | OMinZ \<Rightarrow> EdgeBack | OMaxZ \<Rightarrow> EdgeFront)"

text \<open>The body of the innermost \<open>for\<close>.\<close>

definition snapStep :: "Vector3 \<Rightarrow> string \<Rightarrow> BlockFace \<Rightarrow> FaceOffset \<Rightarrow> SnapState \<Rightarrow> SnapState" where
  "snapStep rawPosition existingId exFace newFace st =
     (if \<not> validPair (orientation exFace) (off_orientation newFace) then st
      else
        let s = snapSolve exFace newFace;
            dist = snapDist rawPosition s
        in
        if dist < SNAP_THRESHOLD \<and> ltClosest dist (closestDistance st) then
          \<lparr>bestSnapPosition = \<lparr>vec_x = fst s, vec_y = vec_y rawPosition, vec_z = snd s\<rparr>,
           closestDistance = Some dist,
           st_snappedToBlock = True,
           st_snappedBlockId = Some existingId,
           st_snapEdge = Some (edgeName (off_orientation newFace))\<rparr>
        else st)"

text \<open>The two inner iterations, over the faces of one existing block and over the face offsets
  of the new one.\<close>

definition snapFaces :: "Vector3 \<Rightarrow> FaceOffset list \<Rightarrow> string \<Rightarrow> BlockFace list \<Rightarrow> SnapState \<Rightarrow> SnapState" where
  "snapFaces rawPosition newFaceOffsets existingId exFaces st =
     fold (\<lambda>exFace. fold (snapStep rawPosition existingId exFace) newFaceOffsets) exFaces st"

text \<open>The outer iteration, over the existing blocks; \<open>getBlockFaces\<close> may raise in the
  middle of it.\<close>

fun snapBlocks :: "Vector3 \<Rightarrow> FaceOffset list \<Rightarrow> ICFBlock list \<Rightarrow> SnapState \<Rightarrow> js_error + SnapState" where
  "snapBlocks rawPosition newFaceOffsets [] st = Inr st"
| "snapBlocks rawPosition newFaceOffsets (existingBlock # rest) st =
     (case getBlockFaces existingBlock of
        Inl e \<Rightarrow> Inl e
      | Inr exFaces \<Rightarrow>
          snapBlocks rawPosition newFaceOffsets rest
            (snapFaces rawPosition newFaceOffsets (block_id existingBlock) exFaces st))"

text \<open>Simple grid snap. A grid size of 0, where JavaScript divides to an infinity or NaN,
  is outside the model.\<close>

definition snapToGrid :: "Vector3 \<Rightarrow> real \<Rightarrow> Vector3" where
  "snapToGrid pos gridSize =
     \<lparr>vec_x = of_int (round (vec_x pos / gridSize)) * gridSize,
      vec_y = of_int (round (vec_y pos / 16)) * 16,
      vec_z = of_int (round (vec_z pos / gridSize)) * gridSize\<rparr>"

definition snapInit :: "Vector3 \<Rightarrow> SnapState" where
  "snapInit rawPosition =
     \<lparr>bestSnapPosition = rawPosition, closestDistance = None, st_snappedToBlock = False,
      st_snappedBlockId = None, st_snapEdge = None\<rparr>"

definition snapBlockPosition ::
  "Vector3 \<Rightarrow> string \<Rightarrow> real \<Rightarrow> real \<Rightarrow> ICFBlock list \<Rightarrow> real \<Rightarrow> js_error + SnapResult" where
  "snapBlockPosition rawPosition blockType core rot existingBlocks gridSize =
     (case getBlockFaceOffsets blockType core rot of
        Inl e \<Rightarrow> Inl e
      | Inr newFaceOffsets \<Rightarrow>
          (case snapBlocks rawPosition newFaceOffsets existingBlocks (snapInit rawPosition) of
             Inl e \<Rightarrow> Inl e
           | Inr st \<Rightarrow>
               Inr \<lparr>snap_position =
                      (if \<not> st_snappedToBlock st then
                         \<lparr>vec_x = of_int (round (vec_x rawPosition / gridSize)) * gridSize,
                          vec_y = of_int (round (vec_y rawPosition / 16)) * 16,
                          vec_z = of_int (round (vec_z rawPosition / gridSize)) * gridSize\<rparr>
                       else bestSnapPosition st),
                    snappedToBlock = st_snappedToBlock st,
                    snappedBlockId = st_snappedBlockId st,
                    snapEdge = st_snapEdge st\<rparr>))"

section \<open>Binary64 arithmetic\<close>

text \<open>
  A JavaScript number is an IEEE 754 binary64 value, and every arithmetic operation returns
  the double nearest to the exact result, a tie going to the even significand. \<open>fl64 x\<close> is
  that double for a real \<open>x\<close>. The exponent of \<open>x\<close> is the floor of the binary logarithm of
  \<open>|x|\<close>, but not less than \<open>-1022\<close>: below \<open>2 powi (-1022)\<close> the doubles are subnormal and
  keep the spacing \<open>2 powi (-1074)\<close>. Around \<open>x\<close> the doubles are the multiples of
  \<open>2 powi (exponent - 52)\<close>, and \<open>x\<close> is rounded to the nearest of them. Results of magnitude
  \<open>2 powi 1024\<close> and more, which JavaScript turns into an infinity, are outside the model.
\<close>

definition exponent64 :: "real \<Rightarrow> int" where
  "exponent64 x = max \<lfloor>log 2 \<bar>x\<bar>\<rfloor> (- 1022)"

definition ulp64 :: "real \<Rightarrow> real" where
  "ulp64 x = 2 powi (exponent64 x - 52)"

definition roundHalfEven :: "real \<Rightarrow> int" where
  "roundHalfEven q =
     (let f = \<lfloor>q\<rfloor> in
      if q - of_int f < 1 / 2 then f
      else if 1 / 2 < q - of_int f then f + 1
      else if even f then f else f + 1)"

definition fl64 :: "real \<Rightarrow> real" where
  "fl64 x = (if x = 0 then 0 else of_int (roundHalfEven (x / ulp64 x)) * ulp64 x)"


text \<open>
  \<open>snapToGrid\<close> as the program computes it: the division and the multiplication are rounded;
  \<open>Math.round\<close> of a double is an integer that is a double, so it is exact.
\<close>

definition snapToGrid64 :: "Vector3 \<Rightarrow> real \<Rightarrow> Vector3" where
  "snapToGrid64 pos gridSize =
     \<lparr>vec_x = fl64 (of_int (round (fl64 (vec_x pos / gridSize))) * gridSize),
      vec_y = fl64 (of_int (round (fl64 (vec_y pos / 16))) * 16),
      vec_z = fl64 (of_int (round (fl64 (vec_z pos / gridSize))) * gridSize)\<rparr>"

section \<open>The search with its arithmetic left open\<close>

text \<open>
  The control flow of \<open>snapBlockPosition\<close> with the numbers it works on left open:
  \<open>facesOf\<close> stands for \<open>getBlockFaces\<close>, \<open>offsetsOf\<close> for \<open>getBlockFaceOffsets\<close>, \<open>solve\<close>
  for the solved centre \<open>(snapX, snapZ)\<close>, \<open>distance\<close> for \<open>dist\<close> and \<open>grid\<close> for the grid
  fallback. What is kept is the nested iteration in its order, the test \<open>validPair\<close>, the
  two strict comparisons and the updates. With the exact functions of the sections above
  this is \<open>snapBlockPosition\<close> itself; with the same computations rounded to binary64 it is
  the program on doubles. A property proved for every choice of the five parameters holds
  of both.
\<close>

definition snapStepWith ::
  "(BlockFace \<Rightarrow> FaceOffset \<Rightarrow> real \<times> real) \<Rightarrow> (Vector3 \<Rightarrow> real \<times> real \<Rightarrow> real) \<Rightarrow>
   Vector3 \<Rightarrow> string \<Rightarrow> BlockFace \<Rightarrow> FaceOffset \<Rightarrow> SnapState \<Rightarrow> SnapState" where
  "snapStepWith solve distance rawPosition existingId exFace newFace st =
     (if \<not> validPair (orientation exFace) (off_orientation newFace) then st
      else
        let s = solve exFace newFace;
            d = distance rawPosition s
        in
        if d < SNAP_THRESHOLD \<and> ltClosest d (closestDistance st) then
          \<lparr>bestSnapPosition = \<lparr>vec_x = fst s, vec_y = vec_y rawPosition, vec_z = snd s\<rparr>,
           closestDistance = Some d,
           st_snappedToBlock = True,
           st_snappedBlockId = Some existingId,
           st_snapEdge = Some (edgeName (off_orientation newFace))\<rparr>
        else st)"

definition snapFacesWith ::
  "(BlockFace \<Rightarrow> FaceOffset \<Rightarrow> real \<times> real) \<Rightarrow> (Vector3 \<Rightarrow> real \<times> real \<Rightarrow> real) \<Rightarrow>
   Vector3 \<Rightarrow> FaceOffset list \<Rightarrow> string \<Rightarrow> BlockFace list \<Rightarrow> SnapState \<Rightarrow> SnapState" where
  "snapFacesWith solve distance rawPosition newFaceOffsets existingId exFaces st =
     fold (\<lambda>exFace. fold (snapStepWith solve distance rawPosition existingId exFace)
                      newFaceOffsets)
       exFaces st"

fun snapBlocksWith ::
  "(ICFBlock \<Rightarrow> js_error + BlockFace list) \<Rightarrow>
   (BlockFace \<Rightarrow> FaceOffset \<Rightarrow> real \<times> real) \<Rightarrow> (Vector3 \<Rightarrow> real \<times> real \<Rightarrow> real) \<Rightarrow>
   Vector3 \<Rightarrow> FaceOffset list \<Rightarrow> ICFBlock list \<Rightarrow> SnapState \<Rightarrow> js_error + SnapState" where
  "snapBlocksWith facesOf solve distance rawPosition newFaceOffsets [] st = Inr st"
| "snapBlocksWith facesOf solve distance rawPosition newFaceOffsets (existingBlock # rest) st =
     (case facesOf existingBlock of
        Inl e \<Rightarrow> Inl e
      | Inr exFaces \<Rightarrow>
          snapBlocksWith facesOf solve distance rawPosition newFaceOffsets rest
            (snapFacesWith solve distance rawPosition newFaceOffsets
               (block_id existingBlock) exFaces st))"

definition snapBlockPositionWith ::
  "(ICFBlock \<Rightarrow> js_error + BlockFace list) \<Rightarrow>
   (string \<Rightarrow> real \<Rightarrow> real \<Rightarrow> js_error + FaceOffset list) \<Rightarrow>
   (BlockFace \<Rightarrow> FaceOffset \<Rightarrow> real \<times> real) \<Rightarrow> (Vector3 \<Rightarrow> real \<times> real \<Rightarrow> real) \<Rightarrow>
   (Vector3 \<Rightarrow> real \<Rightarrow> Vector3) \<Rightarrow>
   Vector3 \<Rightarrow> string \<Rightarrow> real \<Rightarrow> real \<Rightarrow> ICFBlock list \<Rightarrow> real \<Rightarrow> js_error + SnapResult" where
  "snapBlockPositionWith facesOf offsetsOf solve distance grid
       rawPosition blockType core rot existingBlocks gridSize =
     (case offsetsOf blockType core rot of
        Inl e \<Rightarrow> Inl e
      | Inr newFaceOffsets \<Rightarrow>
          (case snapBlocksWith facesOf solve distance rawPosition newFaceOffsets existingBlocks
                  (snapInit rawPosition) of
             Inl e \<Rightarrow> Inl e
           | Inr st \<Rightarrow>
               Inr \<lparr>snap_position =
                      (if \<not> st_snappedToBlock st then grid rawPosition gridSize
                       else bestSnapPosition st),
                    snappedToBlock = st_snappedToBlock st,
                    snappedBlockId = st_snappedBlockId st,
                    snapEdge = st_snapEdge st\<rparr>))"











section \<open>Well-typed inputs and the face/offset correspondence\<close>

text \<open>The values of the TypeScript type \<open>ICFCoreThickness = 4 | 6 | 8 | 10 | 12\<close>.\<close>

definition validCore :: "real \<Rightarrow> bool" where
  "validCore core \<longleftrightarrow> core = 4 \<or> core = 6 \<or> core = 8 \<or> core = 10 \<or> core = 12"

text \<open>A rotation that none of the \<open>case\<close> labels 0, 90, 180, 270 matches.\<close>

definition oddRotation :: "real \<Rightarrow> bool" where
  "oddRotation rot \<longleftrightarrow> rot \<noteq> 0 \<and> rot \<noteq> 90 \<and> rot \<noteq> 180 \<and> rot \<noteq> 270"

text \<open>A face offset of a block moved to the centre \<open>p\<close>: what \<open>getBlockFaces\<close> has to
  return for a block at \<open>p\<close> if it mirrors \<open>getBlockFaceOffsets\<close>.\<close>

definition translateOffset :: "Vector3 \<Rightarrow> FaceOffset \<Rightarrow> BlockFace" where
  "translateOffset p off =
     \<lparr>centerX = vec_x p + offsetX off, centerZ = vec_z p + offsetZ off,
      plane = (if off_orientation off = OMinX \<or> off_orientation off = OMaxX
               then vec_x p else vec_z p) + planeOffset off,
      orientation = off_orientation off\<rparr>"

section \<open>Concrete blocks\<close>

text \<open>The existing block of the two scenarios: a standard block (length 48, width
  \<open>5.5 + 8 = 13.5\<close>) at the origin, not rotated.\<close>

definition originBlock :: ICFBlock where
  "originBlock =
     \<lparr>block_id = ''A'', block_type = ''standard'', coreThickness = 8,
      position = \<lparr>vec_x = 0, vec_y = 0, vec_z = 0\<rparr>, rotation = 0\<rparr>"

definition cornerBlock45 :: ICFBlock where
  "cornerBlock45 =
     \<lparr>block_id = ''B'', block_type = ''corner45'', coreThickness = 8,
      position = \<lparr>vec_x = 48, vec_y = 0, vec_z = 0\<rparr>, rotation = 0\<rparr>"

definition cornerBlock90 :: ICFBlock where
  "cornerBlock90 =
     \<lparr>block_id = ''C'', block_type = ''corner90'', coreThickness = 8,
      position = \<lparr>vec_x = 10, vec_y = 0, vec_z = 20\<rparr>, rotation = 0\<rparr>"

definition tiltedCorner :: ICFBlock where
  "tiltedCorner =
     \<lparr>block_id = ''D'', block_type = ''corner90'', coreThickness = 6,
      position = \<lparr>vec_x = 0, vec_y = 0, vec_z = 0\<rparr>, rotation = 45\<rparr>"

definition taperBlock :: ICFBlock where
  "taperBlock =
     \<lparr>block_id = ''E'', block_type = ''taperTop'', coreThickness = 6,
      position = \<lparr>vec_x = 1, vec_y = 0, vec_z = 2\<rparr>, rotation = 90\<rparr>"

text \<open>A block whose type is not a key of the catalog.\<close>

definition unknownBlock :: ICFBlock where
  "unknownBlock =
     \<lparr>block_id = ''U'', block_type = ''arch'', coreThickness = 8,
      position = \<lparr>vec_x = 0, vec_y = 0, vec_z = 0\<rparr>, rotation = 0\<rparr>"


section \<open>Facts about the catalog\<close>

lemma catalog_dom:
  "dom ICF_BLOCK_CATALOG =
     {''standard'', ''corner90'', ''corner45'', ''taperTop'', ''brickLedge'', ''heightAdjuster''}"
  unfolding ICF_BLOCK_CATALOG_def by auto

lemma catalog_standard:
  "ICF_BLOCK_CATALOG ''standard'' =
     Some \<lparr>spec_type = ''standard'', spec_height = 16, spec_length = 48,
           longLeg = None, shortLeg = None, getWidth = getStandardWidth\<rparr>"
  by (simp add: ICF_BLOCK_CATALOG_def)

lemma catalog_corner90:
  "ICF_BLOCK_CATALOG ''corner90'' =
     Some \<lparr>spec_type = ''corner90'', spec_height = 16, spec_length = 38.5,
           longLeg = Some 38.5, shortLeg = Some 22.5, getWidth = getStandardWidth\<rparr>"
  by (simp add: ICF_BLOCK_CATALOG_def)

lemma catalog_corner45:
  "ICF_BLOCK_CATALOG ''corner45'' =
     Some \<lparr>spec_type = ''corner45'', spec_height = 16, spec_length = 32,
           longLeg = Some 32, shortLeg = Some 32, getWidth = getStandardWidth\<rparr>"
  by (simp add: ICF_BLOCK_CATALOG_def)

lemma catalog_taperTop:
  "ICF_BLOCK_CATALOG ''taperTop'' =
     Some \<lparr>spec_type = ''taperTop'', spec_height = 16, spec_length = 48,
           longLeg = None, shortLeg = None, getWidth = (\<lambda>core. getStandardWidth core + 4)\<rparr>"
  by (simp add: ICF_BLOCK_CATALOG_def)

lemma catalog_cases:
  assumes "ICF_BLOCK_CATALOG t = Some spec"
  shows "t \<in> {''standard'', ''corner90'', ''corner45'', ''taperTop'', ''brickLedge'',
              ''heightAdjuster''}"
proof -
  from assms have "t \<in> dom ICF_BLOCK_CATALOG" by (simp add: domIff)
  then show ?thesis by (simp only: catalog_dom)
qed

lemma catalog_width_nonneg:
  assumes "ICF_BLOCK_CATALOG t = Some spec" and "0 \<le> core"
  shows "0 \<le> getWidth spec core"
  using assms unfolding ICF_BLOCK_CATALOG_def getStandardWidth_def
  by (auto split: if_splits)

lemma catalog_length_nonneg:
  assumes "ICF_BLOCK_CATALOG t = Some spec"
  shows "0 \<le> spec_length spec"
  using assms unfolding ICF_BLOCK_CATALOG_def
  by (auto split: if_splits)

lemma catalog_legs_nonneg:
  assumes "ICF_BLOCK_CATALOG t = Some spec" and "0 \<le> d"
  shows "0 \<le> js_or (longLeg spec) d" and "0 \<le> js_or (shortLeg spec) d"
  using assms unfolding ICF_BLOCK_CATALOG_def js_or_def
  by (auto split: if_splits)

lemma rect_standard: "isRectangular ''standard''"
  by (simp add: isRectangular_def)

lemma rect_taperTop: "isRectangular ''taperTop''"
  by (simp add: isRectangular_def)

lemma not_rect_corner90: "\<not> isRectangular ''corner90''"
  by (simp add: isRectangular_def)

lemma not_rect_corner45: "\<not> isRectangular ''corner45''"
  by (simp add: isRectangular_def)

lemma standard_in_catalog: "''standard'' \<in> dom ICF_BLOCK_CATALOG"
  by (simp add: domIff catalog_standard)

lemma corner90_in_catalog: "''corner90'' \<in> dom ICF_BLOCK_CATALOG"
  by (simp add: domIff catalog_corner90)

section \<open>The geometry functions return on every catalog type\<close>

lemma getBlockBounds_total:
  assumes "block_type b \<in> dom ICF_BLOCK_CATALOG"
  shows "\<exists>r. getBlockBounds b = Inr r"
proof -
  from assms obtain spec where "ICF_BLOCK_CATALOG (block_type b) = Some spec" by auto
  then show ?thesis by (simp add: getBlockBounds_def Let_def)
qed

lemma getBlockFaces_total:
  assumes "block_type b \<in> dom ICF_BLOCK_CATALOG"
  shows "\<exists>f. getBlockFaces b = Inr f"
proof -
  from assms obtain spec where spec: "ICF_BLOCK_CATALOG (block_type b) = Some spec" by auto
  from getBlockBounds_total [OF assms] obtain r where "getBlockBounds b = Inr r" ..
  with spec show ?thesis by (simp add: getBlockFaces_def Let_def)
qed

lemma getBlockFaceOffsets_total:
  assumes "t \<in> dom ICF_BLOCK_CATALOG"
  shows "\<exists>offs. getBlockFaceOffsets t core rot = Inr offs"
proof -
  from assms obtain spec where "ICF_BLOCK_CATALOG t = Some spec" by auto
  then show ?thesis by (simp add: getBlockFaceOffsets_def Let_def)
qed

text \<open>For the rectangular types and for corner-90 the two face functions mirror each
  other, at every rotation; corner-45 is the one catalog type left out.\<close>

lemma faces_are_translated_offsets:
  assumes cat: "block_type b \<in> dom ICF_BLOCK_CATALOG"
      and not45: "block_type b \<noteq> ''corner45''"
  shows "\<exists>offs. getBlockFaceOffsets (block_type b) (coreThickness b) (rotation b) = Inr offs \<and>
           getBlockFaces b = Inr (map (translateOffset (position b)) offs)"
proof -
  from cat obtain spec where spec: "ICF_BLOCK_CATALOG (block_type b) = Some spec" by auto
  show ?thesis
  proof (cases "isRectangular (block_type b)")
    case True
    then show ?thesis
      by (simp add: getBlockFaceOffsets_def getBlockFaces_def spec Let_def translateOffset_def)
  next
    case False
    with catalog_cases [OF spec] not45 have c90: "block_type b = ''corner90''"
      by (auto simp: isRectangular_def)
    from spec c90 have spec90: "ICF_BLOCK_CATALOG ''corner90'' = Some spec" by simp
    show ?thesis
      by (simp add: getBlockFaceOffsets_def getBlockFaces_def c90 spec90 not_rect_corner90
            Let_def translateOffset_def)
  qed
qed

section \<open>The search visits the opposing pairs in order\<close>








lemma snapBlocks_instance:
  "snapBlocks raw offs bs st = snapBlocksWith getBlockFaces snapSolve snapDist raw offs bs st"
proof (induction bs arbitrary: st)
  case Nil
  show ?case by simp
next
  case (Cons b bs)
  have step: "snapStep raw i f = snapStepWith snapSolve snapDist raw i f" for i f
    by (rule ext, rule ext) (simp add: snapStep_def snapStepWith_def)
  have "snapFaces raw offs i fs s = snapFacesWith snapSolve snapDist raw offs i fs s" for i fs s
    by (simp add: snapFaces_def snapFacesWith_def step)
  with Cons show ?case by (simp split: sum.splits)
qed

lemma snapBlockPosition_instance:
  "snapBlockPosition raw t core rot ex g =
     snapBlockPositionWith getBlockFaces getBlockFaceOffsets snapSolve snapDist snapToGrid
       raw t core rot ex g"
  by (simp add: snapBlockPosition_def snapBlockPositionWith_def snapBlocks_instance
        snapToGrid_def split: sum.splits)




section \<open>Blocks and offsets without faces\<close>

lemma corner90_odd_faces:
  assumes "block_type b = ''corner90''" and "oddRotation (rotation b)"
  shows "getBlockFaces b = Inr []"
  using assms
  by (simp add: getBlockFaces_def catalog_corner90 not_rect_corner90 oddRotation_def Let_def)

lemma corner90_odd_offsets:
  assumes "oddRotation rot"
  shows "getBlockFaceOffsets ''corner90'' core rot = Inr []"
  using assms
  by (simp add: getBlockFaceOffsets_def catalog_corner90 not_rect_corner90 oddRotation_def Let_def)

lemma snapFaces_no_faces: "snapFaces raw offs bid [] st = st"
  by (simp add: snapFaces_def)

lemma snapFaces_no_offsets: "snapFaces raw [] bid faces st = st"
  unfolding snapFaces_def by (induction faces arbitrary: st) simp_all

lemma snapBlocks_skip:
  assumes "getBlockFaces b = Inr []"
  shows "snapBlocks raw offs (xs @ b # ys) st = snapBlocks raw offs (xs @ ys) st"
proof (induction xs arbitrary: st)
  case Nil
  show ?case by (simp add: assms snapFaces_no_faces)
next
  case (Cons x xs)
  show ?case by (simp add: Cons.IH split: sum.splits)
qed

lemma snapBlocks_no_offsets:
  assumes "\<forall>b\<in>set ex. block_type b \<in> dom ICF_BLOCK_CATALOG"
  shows "snapBlocks raw [] ex st = Inr st"
  using assms
proof (induction ex)
  case Nil
  show ?case by simp
next
  case (Cons b ex)
  from Cons.prems have "block_type b \<in> dom ICF_BLOCK_CATALOG" by simp
  from getBlockFaces_total [OF this] obtain f where "getBlockFaces b = Inr f" ..
  with Cons show ?case by (simp add: snapFaces_no_offsets)
qed

section \<open>Evaluating the scenarios\<close>

lemma originBlock_sel:
  "block_id originBlock = ''A''" "block_type originBlock = ''standard''"
  "coreThickness originBlock = 8" "rotation originBlock = 0"
  "position originBlock = \<lparr>vec_x = 0, vec_y = 0, vec_z = 0\<rparr>"
  by (simp_all add: originBlock_def)

lemma originBlock_faces:
  "getBlockFaces originBlock =
     Inr [\<lparr>centerX = - 24, centerZ = 0, plane = - 24, orientation = OMinX\<rparr>,
          \<lparr>centerX = 24, centerZ = 0, plane = 24, orientation = OMaxX\<rparr>,
          \<lparr>centerX = 0, centerZ = - 6.75, plane = - 6.75, orientation = OMinZ\<rparr>,
          \<lparr>centerX = 0, centerZ = 6.75, plane = 6.75, orientation = OMaxZ\<rparr>]"
  by (simp add: getBlockFaces_def originBlock_sel catalog_standard rect_standard
        getStandardWidth_def Let_def)

lemma standard_offsets:
  "getBlockFaceOffsets ''standard'' 8 0 =
     Inr [\<lparr>offsetX = - 24, offsetZ = 0, planeOffset = - 24, off_orientation = OMinX\<rparr>,
          \<lparr>offsetX = 24, offsetZ = 0, planeOffset = 24, off_orientation = OMaxX\<rparr>,
          \<lparr>offsetX = 0, offsetZ = - 6.75, planeOffset = - 6.75, off_orientation = OMinZ\<rparr>,
          \<lparr>offsetX = 0, offsetZ = 6.75, planeOffset = 6.75, off_orientation = OMaxZ\<rparr>]"
  by (simp add: getBlockFaceOffsets_def catalog_standard rect_standard
        getStandardWidth_def Let_def)

lemma cornerBlock45_faces:
  "getBlockFaces cornerBlock45 =
     Inr [\<lparr>centerX = 48, centerZ = 16, plane = 48, orientation = OMinX\<rparr>,
          \<lparr>centerX = 80, centerZ = 16, plane = 80, orientation = OMaxX\<rparr>,
          \<lparr>centerX = 64, centerZ = 0, plane = 0, orientation = OMinZ\<rparr>,
          \<lparr>centerX = 64, centerZ = 32, plane = 32, orientation = OMaxZ\<rparr>]"
  by (simp add: getBlockFaces_def getBlockBounds_def cornerBlock45_def catalog_corner45
        not_rect_corner45 js_or_def Let_def)

text \<open>For corner-45 \<open>getBlockFaceOffsets\<close> has no case and returns its fixed fallback.\<close>

lemma corner45_offsets:
  "getBlockFaceOffsets ''corner45'' core rot =
     Inr [\<lparr>offsetX = - 24, offsetZ = 0, planeOffset = - 24, off_orientation = OMinX\<rparr>,
          \<lparr>offsetX = 24, offsetZ = 0, planeOffset = 24, off_orientation = OMaxX\<rparr>,
          \<lparr>offsetX = 0, offsetZ = - 7, planeOffset = - 7, off_orientation = OMinZ\<rparr>,
          \<lparr>offsetX = 0, offsetZ = 7, planeOffset = 7, off_orientation = OMaxZ\<rparr>]"
  by (simp add: getBlockFaceOffsets_def catalog_corner45 not_rect_corner45 Let_def)


lemma sqrt_less_150: "sqrt a < 150 \<longleftrightarrow> a < 22500"
proof -
  have "sqrt 22500 = 150" by (rule real_sqrt_unique) simp_all
  with real_sqrt_less_iff [of a 22500] show ?thesis by simp
qed




lemmas snap_eval =
  snapBlockPosition_def snapFaces_def snapStep_def validPair_def snapSolve_def snapDist_def
  SNAP_THRESHOLD_def sqrt_less_150 ltClosest_def edgeName_def snapInit_def Let_def
  power2_eq_square originBlock_sel originBlock_faces standard_offsets

section \<open>Facts about binary64 rounding\<close>

lemma floor_log2_eq:
  assumes "2 powi E \<le> \<bar>x\<bar>" and "\<bar>x\<bar> < 2 powi (E + 1)"
  shows "\<lfloor>log 2 \<bar>x\<bar>\<rfloor> = E"
proof -
  have "(0::real) < 2 powi E" by simp
  with assms(1) have pos: "0 < \<bar>x\<bar>" by linarith
  have a: "(2::real) powr (of_int E) = 2 powi E"
    by (rule powr_real_of_int') simp_all
  have b: "(2::real) powr (of_int (E + 1)) = 2 powi (E + 1)"
    by (rule powr_real_of_int') simp_all
  have "2 powr (of_int E) \<le> \<bar>x\<bar> \<and> \<bar>x\<bar> < 2 powr (of_int (E + 1))"
    using assms a b by simp
  then show ?thesis
    using floor_log_eq_powr_iff [of "\<bar>x\<bar>" 2 E] pos by simp
qed

lemma exponent64_eq:
  assumes "2 powi E \<le> \<bar>x\<bar>" and "\<bar>x\<bar> < 2 powi (E + 1)" and "- 1022 \<le> E"
  shows "exponent64 x = E"
  using floor_log2_eq [OF assms(1,2)] assms(3) by (simp add: exponent64_def)

lemma floor_log2_bounds:
  assumes "x \<noteq> 0"
  shows "2 powi \<lfloor>log 2 \<bar>x\<bar>\<rfloor> \<le> \<bar>x\<bar>" and "\<bar>x\<bar> < 2 powi (\<lfloor>log 2 \<bar>x\<bar>\<rfloor> + 1)"
proof -
  have pos: "0 < \<bar>x\<bar>" using assms by simp
  have a: "(2::real) powr (of_int \<lfloor>log 2 \<bar>x\<bar>\<rfloor>) = 2 powi \<lfloor>log 2 \<bar>x\<bar>\<rfloor>"
    by (rule powr_real_of_int') simp_all
  have b: "(2::real) powr (of_int (\<lfloor>log 2 \<bar>x\<bar>\<rfloor> + 1)) = 2 powi (\<lfloor>log 2 \<bar>x\<bar>\<rfloor> + 1)"
    by (rule powr_real_of_int') simp_all
  have "2 powr (of_int \<lfloor>log 2 \<bar>x\<bar>\<rfloor>) \<le> \<bar>x\<bar> \<and> \<bar>x\<bar> < 2 powr (of_int (\<lfloor>log 2 \<bar>x\<bar>\<rfloor> + 1))"
    using floor_log_eq_powr_iff [of "\<bar>x\<bar>" 2 "\<lfloor>log 2 \<bar>x\<bar>\<rfloor>"] pos by simp
  then show "2 powi \<lfloor>log 2 \<bar>x\<bar>\<rfloor> \<le> \<bar>x\<bar>" and "\<bar>x\<bar> < 2 powi (\<lfloor>log 2 \<bar>x\<bar>\<rfloor> + 1)"
    unfolding a b by simp_all
qed

lemma roundHalfEven_error: "\<bar>of_int (roundHalfEven q) - q\<bar> \<le> 1 / 2"
  unfolding roundHalfEven_def Let_def by (auto; linarith)

lemma roundHalfEven_near:
  assumes "\<bar>q - of_int n\<bar> < 1 / 2"
  shows "roundHalfEven q = n"
proof -
  have "\<bar>of_int (roundHalfEven q) - q\<bar> \<le> 1 / 2" by (rule roundHalfEven_error)
  with assms have "\<bar>(of_int (roundHalfEven q) :: real) - of_int n\<bar> < 1" by linarith
  then have "\<bar>roundHalfEven q - n\<bar> < 1"
    by (metis of_int_1 of_int_abs of_int_diff of_int_less_iff)
  then show ?thesis by linarith
qed

lemma roundHalfEven_of_int [simp]: "roundHalfEven (of_int n) = n"
  by (rule roundHalfEven_near) simp

lemma ulp64_pos: "0 < ulp64 x"
  by (simp add: ulp64_def)

lemma fl64_zero [simp]: "fl64 0 = 0"
  by (simp add: fl64_def)

lemma fl64_abs_error: "\<bar>fl64 x - x\<bar> \<le> ulp64 x / 2"
proof (cases "x = 0")
  case True
  then show ?thesis using ulp64_pos [of x] by simp
next
  case False
  have u: "0 < ulp64 x" by (rule ulp64_pos)
  have "fl64 x - x = (of_int (roundHalfEven (x / ulp64 x)) - x / ulp64 x) * ulp64 x"
    using False u by (simp add: fl64_def field_simps)
  then have "\<bar>fl64 x - x\<bar> = \<bar>of_int (roundHalfEven (x / ulp64 x)) - x / ulp64 x\<bar> * ulp64 x"
    using u by (simp add: abs_mult)
  also have "\<dots> \<le> (1 / 2) * ulp64 x"
    using roundHalfEven_error [of "x / ulp64 x"] u by (intro mult_right_mono) simp_all
  finally show ?thesis by simp
qed

lemma ulp64_normal:
  assumes "2 powi (- 1022) \<le> \<bar>x\<bar>"
  shows "ulp64 x \<le> \<bar>x\<bar> / 2 ^ 52"
proof -
  have "(0::real) < 2 powi (- 1022)" by (rule zero_less_power_int) simp
  with assms have "0 < \<bar>x\<bar>" by linarith
  then have nz: "x \<noteq> 0" by auto
  let ?E = "\<lfloor>log 2 \<bar>x\<bar>\<rfloor>"
  have "\<not> \<bar>x\<bar> < 2 powi (- 1022)" using assms by simp
  have ge: "- 1022 \<le> ?E"
  proof (rule ccontr)
    assume "\<not> - 1022 \<le> ?E"
    then have "?E + 1 \<le> - 1022" by linarith
    then have "(2::real) powi (?E + 1) \<le> 2 powi (- 1022)"
      by (intro power_int_increasing) simp_all
    with floor_log2_bounds(2) [OF nz] assms show False by linarith
  qed
  then have "exponent64 x = ?E" by (simp add: exponent64_def)
  then have "ulp64 x = 2 powi (?E - 52)" by (simp add: ulp64_def)
  also have "\<dots> = 2 powi ?E / 2 ^ 52"
    by (simp add: power_int_diff)
  also have "\<dots> \<le> \<bar>x\<bar> / 2 ^ 52"
    using floor_log2_bounds(1) [OF nz] by (simp add: divide_right_mono)
  finally show ?thesis .
qed

lemma fl64_rel_error:
  assumes "2 powi (- 1022) \<le> \<bar>x\<bar>"
  shows "\<bar>fl64 x - x\<bar> \<le> \<bar>x\<bar> / 2 ^ 53"
proof -
  have "\<bar>fl64 x - x\<bar> \<le> ulp64 x / 2" by (rule fl64_abs_error)
  also have "\<dots> \<le> (\<bar>x\<bar> / 2 ^ 52) / 2"
    using ulp64_normal [OF assms] by simp
  also have "\<dots> = \<bar>x\<bar> / 2 ^ 53" by simp
  finally show ?thesis .
qed


lemma fl64_binade:
  assumes "2 powi E \<le> \<bar>x\<bar>" and "\<bar>x\<bar> < 2 powi (E + 1)" and "- 1022 \<le> E"
  shows "fl64 x = of_int (roundHalfEven (x / 2 powi (E - 52))) * 2 powi (E - 52)"
proof -
  have "(0::real) < 2 powi E" by simp
  with assms(1) have "0 < \<bar>x\<bar>" by linarith
  then have nz: "x \<noteq> 0" by auto
  have u: "ulp64 x = 2 powi (E - 52)"
    using exponent64_eq [OF assms] by (simp add: ulp64_def)
  show ?thesis using nz u by (simp add: fl64_def)
qed



section \<open>The grid snap on doubles\<close>

lemma cell_stable:
  assumes lo: "1 / 2 ^ 1000 \<le> g" and k: "\<bar>k\<bar> \<le> 2 ^ 50"
  shows "round (fl64 (fl64 (of_int k * g) / g)) = k"
proof (cases "k = 0")
  case True
  then show ?thesis by simp
next
  case False
  have "(0::real) < 1 / 2 ^ 1000" by simp
  with lo have gpos: "0 < g" by linarith
  have tiny: "(2::real) powi (- 1022) \<le> 1 / 2 ^ 1000"
    by (simp add: power_int_minus field_simps)
  define v where "v = of_int k * g"
  define y where "y = fl64 v"
  define w where "w = y / g"
  define K where "K = \<bar>real_of_int k\<bar>"
  from False have K1: "1 \<le> K" unfolding K_def by (simp add: of_int_abs [symmetric] del: of_int_abs) 
  from k have K50: "K \<le> 2 ^ 50" unfolding K_def
    by (metis of_int_abs of_int_le_iff of_int_numeral of_int_power)
  have vabs: "\<bar>v\<bar> = K * g" using gpos by (simp add: v_def K_def abs_mult)
  have "2 powi (- 1022) \<le> \<bar>v\<bar>"
  proof -
    have "g \<le> K * g" using K1 gpos by simp
    with lo tiny vabs show ?thesis by linarith
  qed
  from fl64_rel_error [OF this] have e1: "\<bar>y - v\<bar> \<le> K * g / 2 ^ 53"
    by (simp add: y_def vabs)
  have wk: "w - of_int k = (y - v) / g" using gpos by (simp add: w_def v_def field_simps)
  have e1': "\<bar>w - of_int k\<bar> \<le> K / 2 ^ 53"
  proof -
    have "\<bar>w - of_int k\<bar> = \<bar>y - v\<bar> / g" using gpos by (simp add: wk abs_divide)
    also have "\<dots> \<le> (K * g / 2 ^ 53) / g"
      by (intro divide_right_mono e1 less_imp_le gpos)
    also have "\<dots> = K / 2 ^ 53" using gpos by simp
    finally show ?thesis .
  qed
  have wlo: "K - K / 2 ^ 53 \<le> \<bar>w\<bar>" using e1' unfolding K_def by linarith
  have whi: "\<bar>w\<bar> \<le> K + K / 2 ^ 53" using e1' unfolding K_def by linarith
  have "2 powi (- 1022) \<le> \<bar>w\<bar>"
  proof -
    have "(1::real) / 2 \<le> K - K / 2 ^ 53" using K1 by (simp add: field_simps)
    moreover have "(2::real) powi (- 1022) \<le> 1 / 2" by (simp add: power_int_minus field_simps)
    ultimately show ?thesis using wlo by linarith
  qed
  from fl64_rel_error [OF this] have e2: "\<bar>fl64 w - w\<bar> \<le> \<bar>w\<bar> / 2 ^ 53" .
  have "\<bar>w\<bar> / 2 ^ 53 \<le> (K + K / 2 ^ 53) / 2 ^ 53" using whi by (simp add: divide_right_mono)
  with e2 have e2': "\<bar>fl64 w - w\<bar> \<le> (K + K / 2 ^ 53) / 2 ^ 53" by linarith
  have "\<bar>fl64 w - of_int k\<bar> \<le> K / 2 ^ 53 + (K + K / 2 ^ 53) / 2 ^ 53"
    using e1' e2' by linarith
  also have "\<dots> \<le> 2 ^ 50 / 2 ^ 53 + (2 ^ 50 + 2 ^ 50 / 2 ^ 53) / 2 ^ 53"
    using K50 by (intro add_mono divide_right_mono) simp_all
  also have "\<dots> < 1 / 2" by simp
  finally have "round (fl64 w) = k" by (rule round_unique')
  then show ?thesis by (simp add: w_def y_def v_def)
qed

lemma c9_first:
  "snapToGrid64 \<lparr>vec_x = 4776788754394333, vec_y = 0, vec_z = 0\<rparr> 1.5 =
     \<lparr>vec_x = 4776788754394334, vec_y = 0, vec_z = 0\<rparr>"
proof -
  have a: "fl64 (4776788754394333 / 1.5) = 3184525836262888.5"
    by (subst fl64_binade [where E = 51]) (simp_all add: roundHalfEven_def)
  have b: "fl64 (3184525836262889 * 1.5) = 4776788754394334"
    by (subst fl64_binade [where E = 52]) (simp_all add: roundHalfEven_def)
  have r: "round (3184525836262888.5 :: real) = 3184525836262889" by (simp add: round_def)
  have x: "fl64 (of_int (round (fl64 (4776788754394333 / 1.5))) * 1.5) = 4776788754394334"
    by (simp only: a r of_int_numeral b)
  have y: "fl64 (of_int (round (fl64 (0 / 16))) * 16) = 0" by simp
  have z: "fl64 (of_int (round (fl64 (0 / 1.5))) * 1.5) = 0" by simp
  show ?thesis
    by (simp only: snapToGrid64_def Vector3.select_convs x y z)
qed

lemma c9_second:
  "snapToGrid64 \<lparr>vec_x = 4776788754394334, vec_y = 0, vec_z = 0\<rparr> 1.5 =
     \<lparr>vec_x = 4776788754394335, vec_y = 0, vec_z = 0\<rparr>"
proof -
  have a: "fl64 (4776788754394334 / 1.5) = 3184525836262889.5"
    by (subst fl64_binade [where E = 51]) (simp_all add: roundHalfEven_def)
  have b: "fl64 (3184525836262890 * 1.5) = 4776788754394335"
    by (subst fl64_binade [where E = 52]) (simp_all add: roundHalfEven_def)
  have r: "round (3184525836262889.5 :: real) = 3184525836262890" by (simp add: round_def)
  have x: "fl64 (of_int (round (fl64 (4776788754394334 / 1.5))) * 1.5) = 4776788754394335"
    by (simp only: a r of_int_numeral b)
  have y: "fl64 (of_int (round (fl64 (0 / 16))) * 16) = 0" by simp
  have z: "fl64 (of_int (round (fl64 (0 / 1.5))) * 1.5) = 0" by simp
  show ?thesis
    by (simp only: snapToGrid64_def Vector3.select_convs x y z)
qed

section \<open>The search at the threshold on doubles\<close>













section \<open>The claims\<close>

subsection \<open>C1: the near scenario\<close>

text \<open>
  Claim C1, as amended. One standard block (length 48, width 13.5) sits at the origin with
  rotation 0; a standard block of the same size and rotation is placed with the raw cursor
  position \<open>(50, 0, 2)\<close>. \<open>snapBlockPosition\<close> snaps to the existing block's +X face (plane
  24): solving that face against the new block's -X offset \<open>-24\<close> gives the centre
  \<open>24 - (-24) = 48\<close>, so the result is the existing block's identifier, the centre
  \<open>(48, 0, 0)\<close> and the edge label "left", the label of the new block's own -X face.
\<close>

theorem scenario_near_snaps_to_48_left:
  "snapBlockPosition \<lparr>vec_x = 50, vec_y = 0, vec_z = 2\<rparr> ''standard'' 8 0 [originBlock] 8 =
     Inr \<lparr>snap_position = \<lparr>vec_x = 48, vec_y = 0, vec_z = 0\<rparr>, snappedToBlock = True,
          snappedBlockId = Some (block_id originBlock), snapEdge = Some EdgeLeft\<rparr> \<and>
   snapSolve \<lparr>centerX = 24, centerZ = 0, plane = 24, orientation = OMaxX\<rparr>
     \<lparr>offsetX = - 24, offsetZ = 0, planeOffset = - 24, off_orientation = OMinX\<rparr> = (48, 0)"
  by (simp add: snap_eval)

text \<open>
  Claim C1 as stated fails: at the scenario's input the returned centre is not
  \<open>(72, 0, 0)\<close> and the returned edge label is not "right".
\<close>

theorem scenario_near_not_72_right:
  "map_sum id snap_position
     (snapBlockPosition \<lparr>vec_x = 50, vec_y = 0, vec_z = 2\<rparr> ''standard'' 8 0 [originBlock] 8)
     \<noteq> Inr \<lparr>vec_x = 72, vec_y = 0, vec_z = 0\<rparr> \<and>
   map_sum id snapEdge
     (snapBlockPosition \<lparr>vec_x = 50, vec_y = 0, vec_z = 2\<rparr> ''standard'' 8 0 [originBlock] 8)
     \<noteq> Inr (Some EdgeRight)"
  by (simp add: snap_eval)

subsection \<open>C2: types outside the catalog\<close>

text \<open>
  Claim C2, as amended. For every block whose type is not a key of the catalog,
  \<open>ICF_BLOCK_CATALOG[type]\<close> is \<open>undefined\<close> and \<open>getBlockBounds\<close>, \<open>getBlockFaces\<close> and
  \<open>getBlockFaceOffsets\<close> raise a \<open>TypeError\<close> at \<open>spec.getWidth\<close>, before any geometry
  is computed; none of them returns the fixed fallback rectangle.
\<close>

theorem unknown_type_raises:
  assumes "block_type b \<notin> dom ICF_BLOCK_CATALOG"
  shows "getBlockBounds b = Inl TypeError \<and> getBlockFaces b = Inl TypeError \<and>
         getBlockFaceOffsets (block_type b) core rot = Inl TypeError"
proof -
  from assms have "ICF_BLOCK_CATALOG (block_type b) = None" by (simp add: domIff)
  then show ?thesis
    by (simp add: getBlockBounds_def getBlockFaces_def getBlockFaceOffsets_def)
qed

text \<open>The amended claim at a block of the unknown type "arch".\<close>

theorem unknown_type_raises_witness:
  "block_type unknownBlock \<notin> dom ICF_BLOCK_CATALOG \<and>
   getBlockBounds unknownBlock = Inl TypeError \<and> getBlockFaces unknownBlock = Inl TypeError \<and>
   getBlockFaceOffsets ''arch'' 8 0 = Inl TypeError"
proof -
  have h: "block_type unknownBlock \<notin> dom ICF_BLOCK_CATALOG"
    by (simp add: unknownBlock_def catalog_dom)
  have t: "block_type unknownBlock = ''arch''" by (simp add: unknownBlock_def)
  from unknown_type_raises [OF h, of 8 0] h t show ?thesis by simp
qed

text \<open>
  Claim C2 as stated fails: for the block of type "arch" at the origin \<open>getBlockBounds\<close>
  does not return the fallback rectangle \<open>[-24, 24] \<times> [-7, 7]\<close>, and the two face functions
  do not return its four sides.
\<close>

theorem unknown_type_no_fallback:
  "getBlockBounds unknownBlock \<noteq>
     Inr \<lparr>minX = - 24, maxX = 24, minZ = - 7, maxZ = 7, bounds_rotation = 0\<rparr> \<and>
   getBlockFaces unknownBlock \<noteq>
     Inr [\<lparr>centerX = - 24, centerZ = 0, plane = - 24, orientation = OMinX\<rparr>,
          \<lparr>centerX = 24, centerZ = 0, plane = 24, orientation = OMaxX\<rparr>,
          \<lparr>centerX = 0, centerZ = - 7, plane = - 7, orientation = OMinZ\<rparr>,
          \<lparr>centerX = 0, centerZ = 7, plane = 7, orientation = OMaxZ\<rparr>] \<and>
   getBlockFaceOffsets ''arch'' 8 0 \<noteq>
     Inr [\<lparr>offsetX = - 24, offsetZ = 0, planeOffset = - 24, off_orientation = OMinX\<rparr>,
          \<lparr>offsetX = 24, offsetZ = 0, planeOffset = 24, off_orientation = OMaxX\<rparr>,
          \<lparr>offsetX = 0, offsetZ = - 7, planeOffset = - 7, off_orientation = OMinZ\<rparr>,
          \<lparr>offsetX = 0, offsetZ = 7, planeOffset = 7, off_orientation = OMaxZ\<rparr>]"
  by (simp add: getBlockBounds_def getBlockFaces_def getBlockFaceOffsets_def unknownBlock_def
        ICF_BLOCK_CATALOG_def)

subsection \<open>C3: the round trip of face solving\<close>

text \<open>
  Claim C3 at a corner-45 block. The +X face of the block at the origin (plane 24) is solved
  against the -X offset that \<open>getBlockFaceOffsets\<close> gives for corner-45 (the fallback
  \<open>-24\<close>), which puts the new centre at \<open>x = 48\<close>. A corner-45 block placed there has,
  by \<open>getBlockFaces\<close>, its -X face at plane 48 and not at plane 24: the faces of the
  placed block are not its offsets translated by the centre.
\<close>

theorem corner45_round_trip_breaks:
  "getBlockFaces originBlock =
     Inr [\<lparr>centerX = - 24, centerZ = 0, plane = - 24, orientation = OMinX\<rparr>,
          \<lparr>centerX = 24, centerZ = 0, plane = 24, orientation = OMaxX\<rparr>,
          \<lparr>centerX = 0, centerZ = - 6.75, plane = - 6.75, orientation = OMinZ\<rparr>,
          \<lparr>centerX = 0, centerZ = 6.75, plane = 6.75, orientation = OMaxZ\<rparr>] \<and>
   getBlockFaceOffsets ''corner45'' 8 0 =
     Inr [\<lparr>offsetX = - 24, offsetZ = 0, planeOffset = - 24, off_orientation = OMinX\<rparr>,
          \<lparr>offsetX = 24, offsetZ = 0, planeOffset = 24, off_orientation = OMaxX\<rparr>,
          \<lparr>offsetX = 0, offsetZ = - 7, planeOffset = - 7, off_orientation = OMinZ\<rparr>,
          \<lparr>offsetX = 0, offsetZ = 7, planeOffset = 7, off_orientation = OMaxZ\<rparr>] \<and>
   snapSolve \<lparr>centerX = 24, centerZ = 0, plane = 24, orientation = OMaxX\<rparr>
     \<lparr>offsetX = - 24, offsetZ = 0, planeOffset = - 24, off_orientation = OMinX\<rparr> = (48, 0) \<and>
   position cornerBlock45 = \<lparr>vec_x = 48, vec_y = 0, vec_z = 0\<rparr> \<and>
   getBlockFaces cornerBlock45 =
     Inr [\<lparr>centerX = 48, centerZ = 16, plane = 48, orientation = OMinX\<rparr>,
          \<lparr>centerX = 80, centerZ = 16, plane = 80, orientation = OMaxX\<rparr>,
          \<lparr>centerX = 64, centerZ = 0, plane = 0, orientation = OMinZ\<rparr>,
          \<lparr>centerX = 64, centerZ = 32, plane = 32, orientation = OMaxZ\<rparr>] \<and>
   getBlockFaces cornerBlock45 \<noteq>
     map_sum id (map (translateOffset (position cornerBlock45)))
       (getBlockFaceOffsets ''corner45'' 8 0)"
  by (simp add: originBlock_faces corner45_offsets cornerBlock45_faces snapSolve_def
        translateOffset_def)
     (simp add: cornerBlock45_def)

subsection \<open>C4: the far scenario\<close>

text \<open>
  Claim C4, as amended. With the standard block at the origin and the raw cursor position
  \<open>(500, 0, 500)\<close>, no face-pair solution is within the threshold and \<open>snapBlockPosition\<close>
  with grid size 8 takes the grid fallback. \<open>500 / 8 = 62.5\<close> and \<open>Math.round\<close> rounds a
  half up, to 63, so the position is \<open>(504, 0, 504)\<close>, with \<open>snappedToBlock = false\<close>.
\<close>

theorem scenario_far_grid_504:
  "snapBlockPosition \<lparr>vec_x = 500, vec_y = 0, vec_z = 500\<rparr> ''standard'' 8 0 [originBlock] 8 =
     Inr \<lparr>snap_position = \<lparr>vec_x = 504, vec_y = 0, vec_z = 504\<rparr>, snappedToBlock = False,
          snappedBlockId = None, snapEdge = None\<rparr>"
  by (simp add: snap_eval round_def)

text \<open>Claim C4 as stated fails: the returned position is not \<open>(496, 0, 496)\<close>.\<close>

theorem scenario_far_not_496:
  "map_sum id snap_position
     (snapBlockPosition \<lparr>vec_x = 500, vec_y = 0, vec_z = 500\<rparr> ''standard'' 8 0 [originBlock] 8)
     \<noteq> Inr \<lparr>vec_x = 496, vec_y = 0, vec_z = 496\<rparr>"
  by (simp add: snap_eval round_def)

subsection \<open>C5: the threshold is strict\<close>




subsection \<open>C6: no existing blocks\<close>

text \<open>
  Claim C6. For every raw position \<open>p\<close>, every catalog type, every thickness and every
  rotation, \<open>snapBlockPosition\<close> with an empty list of existing blocks and grid size 8
  returns the position \<open>snapToGrid(p, 8)\<close>, with \<open>snappedToBlock = false\<close>, no block
  identifier and no edge label.
\<close>

theorem empty_scene_grid:
  assumes "blockType \<in> dom ICF_BLOCK_CATALOG"
  shows "snapBlockPosition p blockType core rot [] 8 =
           Inr \<lparr>snap_position = snapToGrid p 8, snappedToBlock = False,
                snappedBlockId = None, snapEdge = None\<rparr>"
proof -
  from getBlockFaceOffsets_total [OF assms] obtain offs
    where "getBlockFaceOffsets blockType core rot = Inr offs" by blast
  then show ?thesis
    by (simp add: snapBlockPosition_def snapInit_def snapToGrid_def)
qed

text \<open>The first corner-90 block of a layout, placed from \<open>(13, 7, -20)\<close>.\<close>

theorem empty_scene_grid_witness:
  "''corner90'' \<in> dom ICF_BLOCK_CATALOG \<and>
   snapBlockPosition \<lparr>vec_x = 13, vec_y = 7, vec_z = - 20\<rparr> ''corner90'' 6 90 [] 8 =
     Inr \<lparr>snap_position = \<lparr>vec_x = 16, vec_y = 0, vec_z = - 16\<rparr>, snappedToBlock = False,
          snappedBlockId = None, snapEdge = None\<rparr>"
proof -
  have v: "snapToGrid \<lparr>vec_x = 13, vec_y = 7, vec_z = - 20\<rparr> 8 =
             \<lparr>vec_x = 16, vec_y = 0, vec_z = - 16\<rparr>"
    by (simp add: snapToGrid_def round_def)
  from empty_scene_grid [OF corner90_in_catalog,
      of "\<lparr>vec_x = 13, vec_y = 7, vec_z = - 20\<rparr>" 6 90] v corner90_in_catalog
  show ?thesis by simp
qed

subsection \<open>C7: the bounds of a corner-90 block at rotation 0\<close>

text \<open>
  Claim C7. For every corner-90 block at rotation 0, with the long leg \<open>L\<close> and the short
  leg \<open>S\<close> of its catalog entry and the width \<open>W\<close> derived from its thickness,
  \<open>getBlockBounds\<close> returns the rectangle with X extent
  \<open>[center.x - W/2, center.x + S - W/2]\<close> and Z extent \<open>[center.z - L/2, center.z + L/2]\<close>.
  In the catalog \<open>L = 38.5\<close>, \<open>S = 22.5\<close> and \<open>W = 5.5 + coreThickness\<close>.
\<close>

theorem corner90_bounds_rot0:
  assumes "block_type b = ''corner90''" and "rotation b = 0"
      and "ICF_BLOCK_CATALOG ''corner90'' = Some spec"
      and "L = js_or (longLeg spec) 38.5" and "S = js_or (shortLeg spec) 22.5"
      and "W = getWidth spec (coreThickness b)"
  shows "getBlockBounds b =
           Inr \<lparr>minX = vec_x (position b) - W / 2, maxX = vec_x (position b) + S - W / 2,
                minZ = vec_z (position b) - L / 2, maxZ = vec_z (position b) + L / 2,
                bounds_rotation = 0\<rparr> \<and>
         L = 38.5 \<and> S = 22.5 \<and> W = 5.5 + coreThickness b"
proof -
  from assms(3) have spec: "spec = \<lparr>spec_type = ''corner90'', spec_height = 16,
      spec_length = 38.5, longLeg = Some 38.5, shortLeg = Some 22.5,
      getWidth = getStandardWidth\<rparr>"
    by (simp add: catalog_corner90)
  with assms show ?thesis
    by (simp add: getBlockBounds_def catalog_corner90 not_rect_corner90 js_or_def Let_def
          getStandardWidth_def)
qed

text \<open>A corner-90 block of thickness 8 (width 13.5) centred at \<open>(10, 0, 20)\<close>.\<close>

theorem corner90_bounds_rot0_witness:
  "block_type cornerBlock90 = ''corner90'' \<and> rotation cornerBlock90 = 0 \<and>
   ICF_BLOCK_CATALOG ''corner90'' =
     Some \<lparr>spec_type = ''corner90'', spec_height = 16, spec_length = 38.5,
           longLeg = Some 38.5, shortLeg = Some 22.5, getWidth = getStandardWidth\<rparr> \<and>
   getBlockBounds cornerBlock90 =
     Inr \<lparr>minX = 3.25, maxX = 25.75, minZ = 0.75, maxZ = 39.25, bounds_rotation = 0\<rparr>"
proof -
  have t: "block_type cornerBlock90 = ''corner90''" and r: "rotation cornerBlock90 = 0"
    by (simp_all add: cornerBlock90_def)
  have p: "position cornerBlock90 = \<lparr>vec_x = 10, vec_y = 0, vec_z = 20\<rparr>"
    and c: "coreThickness cornerBlock90 = 8"
    by (simp_all add: cornerBlock90_def)
  from corner90_bounds_rot0 [OF t r catalog_corner90 refl refl refl]
  have "getBlockBounds cornerBlock90 =
          Inr \<lparr>minX = 3.25, maxX = 25.75, minZ = 0.75, maxZ = 39.25, bounds_rotation = 0\<rparr>"
    by (simp add: p c js_or_def getStandardWidth_def)
  with t r catalog_corner90 show ?thesis by simp
qed

subsection \<open>C8: bounding rectangles are well formed\<close>

text \<open>
  Claim C8. For every block whose thickness is one of 4, 6, 8, 10, 12, every rectangle that
  \<open>getBlockBounds\<close> returns satisfies \<open>minX \<le> maxX\<close> and \<open>minZ \<le> maxZ\<close>, and a rectangle
  is returned for every catalog type. This holds at every rotation, in particular at
  0, 90, 180 and 270.
\<close>

theorem bounds_well_formed:
  assumes core: "validCore (coreThickness b)"
  shows "(\<forall>r. getBlockBounds b = Inr r \<longrightarrow> minX r \<le> maxX r \<and> minZ r \<le> maxZ r) \<and>
         (block_type b \<in> dom ICF_BLOCK_CATALOG \<longrightarrow> (\<exists>r. getBlockBounds b = Inr r))"
proof (intro conjI allI impI)
  fix r assume r: "getBlockBounds b = Inr r"
  then obtain spec where spec: "ICF_BLOCK_CATALOG (block_type b) = Some spec"
    by (auto simp: getBlockBounds_def split: option.splits)
  from core have "0 \<le> coreThickness b" by (auto simp: validCore_def)
  from catalog_width_nonneg [OF spec this] have w: "0 \<le> getWidth spec (coreThickness b)" .
  from catalog_length_nonneg [OF spec] have l: "0 \<le> spec_length spec" .
  have ll: "0 \<le> js_or (longLeg spec) 38.5" "0 \<le> js_or (longLeg spec) 32"
    and sl: "0 \<le> js_or (shortLeg spec) 22.5"
    using catalog_legs_nonneg [OF spec] by simp_all
  from r show "minX r \<le> maxX r"
    using w l ll sl by (auto simp: getBlockBounds_def spec Let_def split: if_splits)
  from r show "minZ r \<le> maxZ r"
    using w l ll sl by (auto simp: getBlockBounds_def spec Let_def split: if_splits)
next
  assume "block_type b \<in> dom ICF_BLOCK_CATALOG"
  then show "\<exists>r. getBlockBounds b = Inr r" by (rule getBlockBounds_total)
qed

text \<open>A taper-top block of thickness 6 (width 15.5) at \<open>(1, 0, 2)\<close>, rotated by 90.\<close>

theorem bounds_well_formed_witness:
  "validCore (coreThickness taperBlock) \<and>
   getBlockBounds taperBlock =
     Inr \<lparr>minX = - 6.75, maxX = 8.75, minZ = - 22, maxZ = 26, bounds_rotation = 90\<rparr> \<and>
   minX \<lparr>minX = - 6.75, maxX = 8.75, minZ = - 22, maxZ = 26, bounds_rotation = 90\<rparr>
     \<le> maxX \<lparr>minX = - 6.75, maxX = 8.75, minZ = - 22, maxZ = 26, bounds_rotation = 90\<rparr> \<and>
   minZ \<lparr>minX = - 6.75, maxX = 8.75, minZ = - 22, maxZ = 26, bounds_rotation = 90\<rparr>
     \<le> maxZ \<lparr>minX = - 6.75, maxX = 8.75, minZ = - 22, maxZ = 26, bounds_rotation = 90\<rparr>"
proof -
  have h: "validCore (coreThickness taperBlock)"
    by (simp add: taperBlock_def validCore_def)
  have v: "getBlockBounds taperBlock =
             Inr \<lparr>minX = - 6.75, maxX = 8.75, minZ = - 22, maxZ = 26, bounds_rotation = 90\<rparr>"
    by (simp add: getBlockBounds_def taperBlock_def catalog_taperTop rect_taperTop
          getStandardWidth_def Let_def)
  from bounds_well_formed [OF h] v
  have "minX \<lparr>minX = - 6.75, maxX = 8.75, minZ = - 22, maxZ = 26, bounds_rotation = 90\<rparr>
          \<le> maxX \<lparr>minX = - 6.75, maxX = 8.75, minZ = - 22, maxZ = 26, bounds_rotation = 90\<rparr> \<and>
        minZ \<lparr>minX = - 6.75, maxX = 8.75, minZ = - 22, maxZ = 26, bounds_rotation = 90\<rparr>
          \<le> maxZ \<lparr>minX = - 6.75, maxX = 8.75, minZ = - 22, maxZ = 26, bounds_rotation = 90\<rparr>"
    by blast
  with h v show ?thesis by blast
qed

subsection \<open>C9: grid snapping is idempotent within range\<close>

text \<open>
  Claim C9, as amended. For every position \<open>p\<close> and every grid size \<open>g\<close> with
  \<open>1 / 2 ^ 1000 \<le> g \<le> 2 ^ 900\<close> for which the three cell indices that \<open>snapToGrid\<close>
  computes, \<open>Math.round(p.x / g)\<close>, \<open>Math.round(p.y / 16)\<close> and \<open>Math.round(p.z / g)\<close>, are
  at most \<open>2 ^ 50\<close> in magnitude, \<open>snapToGrid(snapToGrid(p, g), g) = snapToGrid(p, g)\<close> on doubles,
  the Y component included, which both applications round to a multiple of 16. The bounds
  on \<open>g\<close> keep the products of a cell index and the grid size normal doubles below the
  overflow threshold.
\<close>

theorem snapToGrid64_idempotent_bounded:
  assumes "1 / 2 ^ 1000 \<le> g" and "g \<le> 2 ^ 900"
      and "\<bar>round (fl64 (vec_x p / g))\<bar> \<le> 2 ^ 50"
      and "\<bar>round (fl64 (vec_y p / 16))\<bar> \<le> 2 ^ 50"
      and "\<bar>round (fl64 (vec_z p / g))\<bar> \<le> 2 ^ 50"
  shows "snapToGrid64 (snapToGrid64 p g) g = snapToGrid64 p g"
proof -
  have s: "(1::real) / 2 ^ 1000 \<le> 16" by simp
  show ?thesis
    using cell_stable [OF assms(1) assms(3)] cell_stable [OF s assms(4)]
      cell_stable [OF assms(1) assms(5)]
    by (simp add: snapToGrid64_def)
qed

text \<open>The amended claim at \<open>(13, 7, -20)\<close> with the default grid size 8.\<close>

theorem snapToGrid64_idempotent_bounded_witness:
  "(1::real) / 2 ^ 1000 \<le> 8 \<and> (8::real) \<le> 2 ^ 900 \<and>
   \<bar>round (fl64 (13 / 8))\<bar> \<le> (2 ^ 50 :: int) \<and>
   \<bar>round (fl64 (7 / 16))\<bar> \<le> (2 ^ 50 :: int) \<and>
   \<bar>round (fl64 (- 20 / 8))\<bar> \<le> (2 ^ 50 :: int) \<and>
   snapToGrid64 \<lparr>vec_x = 13, vec_y = 7, vec_z = - 20\<rparr> 8 =
     \<lparr>vec_x = 16, vec_y = 0, vec_z = - 16\<rparr> \<and>
   snapToGrid64 \<lparr>vec_x = 16, vec_y = 0, vec_z = - 16\<rparr> 8 =
     \<lparr>vec_x = 16, vec_y = 0, vec_z = - 16\<rparr>"
proof -
  have g: "(1::real) / 2 ^ 1000 \<le> 8" by simp
  have a: "fl64 (13 / 8) = 13 / 8"
    by (subst fl64_binade [where E = 0]) (simp_all add: roundHalfEven_def)
  have b: "fl64 (7 / 16) = 7 / 16"
    by (subst fl64_binade [where E = "- 2"]) (simp_all add: roundHalfEven_def power_int_minus)
  have c: "fl64 (- 20 / 8) = - 20 / 8"
    by (subst fl64_binade [where E = 1]) (simp_all add: roundHalfEven_def power_int_minus)
  have ra: "round (13 / 8 :: real) = 2" and rb: "round (7 / 16 :: real) = 0"
    and rc: "round (- 20 / 8 :: real) = - 2"
    by (simp_all add: round_def)
  have m: "fl64 (of_int 2 * 8) = 16"
    by (subst fl64_binade [where E = 4]) (simp_all add: roundHalfEven_def)
  have n: "fl64 (of_int (- 2) * 8) = - 16"
    by (subst fl64_binade [where E = 4]) (simp_all add: roundHalfEven_def)
  have z: "fl64 (of_int 0 * 16) = 0" by simp
  let ?p = "\<lparr>vec_x = 13, vec_y = 7, vec_z = - 20\<rparr>"
  have hx: "\<bar>round (fl64 (vec_x ?p / 8))\<bar> \<le> (2 ^ 50 :: int)"
    and hy: "\<bar>round (fl64 (vec_y ?p / 16))\<bar> \<le> (2 ^ 50 :: int)"
    and hz: "\<bar>round (fl64 (vec_z ?p / 8))\<bar> \<le> (2 ^ 50 :: int)"
    by (simp_all only: Vector3.select_convs a b c ra rb rc) simp_all
  have v: "snapToGrid64 ?p 8 = \<lparr>vec_x = 16, vec_y = 0, vec_z = - 16\<rparr>"
    by (simp only: snapToGrid64_def Vector3.select_convs a b c ra rb rc m n z)
  have gh: "(8::real) \<le> 2 ^ 900" by simp
  from snapToGrid64_idempotent_bounded [OF g gh hx hy hz] v
  have "snapToGrid64 \<lparr>vec_x = 16, vec_y = 0, vec_z = - 16\<rparr> 8 =
          \<lparr>vec_x = 16, vec_y = 0, vec_z = - 16\<rparr>"
    by simp
  moreover have "(8::real) \<le> 2 ^ 900" by simp
  moreover have "\<bar>round (fl64 (13 / 8))\<bar> \<le> (2 ^ 50 :: int)"
    "\<bar>round (fl64 (7 / 16))\<bar> \<le> (2 ^ 50 :: int)"
    "\<bar>round (fl64 (- 20 / 8))\<bar> \<le> (2 ^ 50 :: int)"
    by (simp_all only: a b c ra rb rc) simp_all
  ultimately show ?thesis using g v by blast
qed

text \<open>
  Claim C9 as stated fails on doubles: with grid size 1.5 the coordinate
  \<open>4776788754394333\<close> goes to \<open>4776788754394334\<close> in one application and to
  \<open>4776788754394335\<close> in two.
\<close>

theorem snapToGrid64_not_idempotent:
  "snapToGrid64 (snapToGrid64 \<lparr>vec_x = 4776788754394333, vec_y = 0, vec_z = 0\<rparr> 1.5) 1.5
     \<noteq> snapToGrid64 \<lparr>vec_x = 4776788754394333, vec_y = 0, vec_z = 0\<rparr> 1.5"
  by (simp only: c9_first c9_second) simp

subsection \<open>C10: corner-90 blocks at other rotations\<close>

text \<open>
  Claim C10. Let \<open>rot\<close> be a rotation other than 0, 90, 180 and 270. For a corner-90 block
  with that rotation \<open>getBlockFaces\<close> returns the empty list, and
  \<open>getBlockFaceOffsets\<close> returns the empty list for corner-90 at that rotation: the
  switch has no default case. So such an existing block never takes part in a snap, the
  result of \<open>snapBlockPosition\<close> is the same with the block in the list as without it; and
  placing a corner-90 block with such a rotation among blocks of catalog types always gives
  the grid fallback.
\<close>

theorem corner90_odd_rotation:
  assumes odd: "oddRotation rot"
  shows "(block_type b = ''corner90'' \<and> rotation b = rot \<longrightarrow>
            getBlockFaces b = Inr [] \<and>
            snapBlockPosition raw t core' rot' (xs @ b # ys) g =
              snapBlockPosition raw t core' rot' (xs @ ys) g) \<and>
         getBlockFaceOffsets ''corner90'' core rot = Inr [] \<and>
         ((\<forall>e\<in>set ex. block_type e \<in> dom ICF_BLOCK_CATALOG) \<longrightarrow>
            snapBlockPosition raw ''corner90'' core rot ex g =
              Inr \<lparr>snap_position = snapToGrid raw g, snappedToBlock = False,
                   snappedBlockId = None, snapEdge = None\<rparr>)"
proof (intro conjI impI)
  assume b: "block_type b = ''corner90'' \<and> rotation b = rot"
  with odd show faces: "getBlockFaces b = Inr []"
    by (simp add: corner90_odd_faces)
  show "snapBlockPosition raw t core' rot' (xs @ b # ys) g =
          snapBlockPosition raw t core' rot' (xs @ ys) g"
    by (simp add: snapBlockPosition_def snapBlocks_skip [OF faces] cong: sum.case_cong)
next
  from odd show "getBlockFaceOffsets ''corner90'' core rot = Inr []"
    by (rule corner90_odd_offsets)
next
  assume ex: "\<forall>e\<in>set ex. block_type e \<in> dom ICF_BLOCK_CATALOG"
  show "snapBlockPosition raw ''corner90'' core rot ex g =
          Inr \<lparr>snap_position = snapToGrid raw g, snappedToBlock = False,
               snappedBlockId = None, snapEdge = None\<rparr>"
    by (simp add: snapBlockPosition_def corner90_odd_offsets [OF odd]
          snapBlocks_no_offsets [OF ex] snapInit_def snapToGrid_def)
qed

text \<open>
  A corner-90 block turned by 45 at the origin, next to the standard block. A standard block
  placed from \<open>(50, 0, 2)\<close> snaps to the standard block as if the corner were not there;
  a corner-90 block turned by 45 and placed from \<open>(60, 3, 10)\<close> goes to the grid.
\<close>

theorem corner90_odd_rotation_witness:
  "oddRotation 45 \<and> block_type tiltedCorner = ''corner90'' \<and> rotation tiltedCorner = 45 \<and>
   getBlockFaces tiltedCorner = Inr [] \<and>
   getBlockFaceOffsets ''corner90'' 6 45 = Inr [] \<and>
   snapBlockPosition \<lparr>vec_x = 50, vec_y = 0, vec_z = 2\<rparr> ''standard'' 8 0
       [tiltedCorner, originBlock] 8 =
     Inr \<lparr>snap_position = \<lparr>vec_x = 48, vec_y = 0, vec_z = 0\<rparr>, snappedToBlock = True,
          snappedBlockId = Some ''A'', snapEdge = Some EdgeLeft\<rparr> \<and>
   snapBlockPosition \<lparr>vec_x = 60, vec_y = 3, vec_z = 10\<rparr> ''corner90'' 6 45 [originBlock] 8 =
     Inr \<lparr>snap_position = \<lparr>vec_x = 64, vec_y = 0, vec_z = 8\<rparr>, snappedToBlock = False,
          snappedBlockId = None, snapEdge = None\<rparr>"
proof -
  have odd: "oddRotation 45" by (simp add: oddRotation_def)
  have b: "block_type tiltedCorner = ''corner90'' \<and> rotation tiltedCorner = 45"
    by (simp add: tiltedCorner_def)
  have ex: "\<forall>e\<in>set [originBlock]. block_type e \<in> dom ICF_BLOCK_CATALOG"
    by (simp add: originBlock_sel standard_in_catalog)
  have near: "snapBlockPosition \<lparr>vec_x = 50, vec_y = 0, vec_z = 2\<rparr> ''standard'' 8 0
                [originBlock] 8 =
              Inr \<lparr>snap_position = \<lparr>vec_x = 48, vec_y = 0, vec_z = 0\<rparr>, snappedToBlock = True,
                   snappedBlockId = Some ''A'', snapEdge = Some EdgeLeft\<rparr>"
    by (simp add: snap_eval)
  have grid: "snapToGrid \<lparr>vec_x = 60, vec_y = 3, vec_z = 10\<rparr> 8 =
                \<lparr>vec_x = 64, vec_y = 0, vec_z = 8\<rparr>"
    by (simp add: snapToGrid_def round_def)
  from corner90_odd_rotation [OF odd, where b = tiltedCorner and xs = "[]"
      and ys = "[originBlock]" and raw = "\<lparr>vec_x = 50, vec_y = 0, vec_z = 2\<rparr>"
      and t = "''standard''" and core' = 8 and rot' = 0 and g = 8 and core = 6] b near
  have one: "getBlockFaces tiltedCorner = Inr [] \<and>
             getBlockFaceOffsets ''corner90'' 6 45 = Inr [] \<and>
             snapBlockPosition \<lparr>vec_x = 50, vec_y = 0, vec_z = 2\<rparr> ''standard'' 8 0
                 [tiltedCorner, originBlock] 8 =
               Inr \<lparr>snap_position = \<lparr>vec_x = 48, vec_y = 0, vec_z = 0\<rparr>, snappedToBlock = True,
                    snappedBlockId = Some ''A'', snapEdge = Some EdgeLeft\<rparr>"
    by simp
  from corner90_odd_rotation [OF odd, where ex = "[originBlock]"
      and raw = "\<lparr>vec_x = 60, vec_y = 3, vec_z = 10\<rparr>" and g = 8 and core = 6] ex grid
  have two: "snapBlockPosition \<lparr>vec_x = 60, vec_y = 3, vec_z = 10\<rparr> ''corner90'' 6 45
                 [originBlock] 8 =
               Inr \<lparr>snap_position = \<lparr>vec_x = 64, vec_y = 0, vec_z = 8\<rparr>, snappedToBlock = False,
                    snappedBlockId = None, snapEdge = None\<rparr>"
    by simp
  from odd b one two show ?thesis by simp
qed

end

